theory Spec2Isabelle
  imports Complex_Main "HOL-Library.Word"
begin

chapter \<open>Panes: a shallow embedding of panel/pane.py\<close>

text \<open>
  The module wraps arbitrary Python objects in panes, picks the pane class for an object
  by precedence, keeps the rendered Bokeh model in step with the wrapped object, derives
  widgets from the dimensions of a HoloViews object and reads image sizes from PNG, GIF
  and JPEG headers. Each part is modelled below as the source writes it; exceptions are
  values of \<open>error\<close>, and a function that can raise returns \<open>error + 'a\<close>.
\<close>

section \<open>Exceptions and strings\<close>

datatype error =
    TypeError string
  | ValueError string
  | StructError string
  | UnboundLocalError string
  | AttributeError string
  | RuntimeError string
  | NotImplementedError

text \<open>\<open>s.startswith(p)\<close>, \<open>s.endswith(p)\<close>, \<open>p in s\<close> and \<open>s.lstrip()\<close> on strings.\<close>

fun startswith :: "string \<Rightarrow> string \<Rightarrow> bool" where
  "startswith s [] = True"
| "startswith [] (p # ps) = False"
| "startswith (c # cs) (p # ps) = (c = p \<and> startswith cs ps)"

definition endswith :: "string \<Rightarrow> string \<Rightarrow> bool" where
  "endswith s p = startswith (rev s) (rev p)"

fun contains :: "string \<Rightarrow> string \<Rightarrow> bool" where
  "contains [] p = (p = [])"
| "contains (c # cs) p = (startswith (c # cs) p \<or> contains cs p)"

text \<open>
  The characters \<open>str.lstrip()\<close> removes, among the code points below 256: the ASCII
  white space, the separators 28 to 31, NEL (133) and the no-break space (160).
\<close>

definition isspace :: "char \<Rightarrow> bool" where
  "isspace c = ((of_char c :: nat) \<in> {9, 10, 11, 12, 13, 28, 29, 30, 31, 32, 133, 160})"

definition lstrip :: "string \<Rightarrow> string" where
  "lstrip s = dropWhile isspace s"

section \<open>Python objects and the pane classes\<close>

text \<open>
  The concrete pane classes of the module. \<open>PaneBase\<close> and \<open>DivPaneBase\<close> declare
  \<open>__abstract = True\<close> and are never candidates; \<open>Image\<close> does not, so it is one.
\<close>

datatype pane_class =
  Bokeh | HoloViews | Image | PNG | GIF | JPG | SVG | Matplotlib | RGGPlot | HTML | Str | YT

text \<open>\<open>type(obj)\<close>: a pane class of this module, or any other class, known by its name.\<close>

datatype py_class = PaneClass pane_class | OtherClass string

fun pane_name :: "pane_class \<Rightarrow> string" where
  "pane_name Bokeh = ''Bokeh''"
| "pane_name HoloViews = ''HoloViews''"
| "pane_name Image = ''Image''"
| "pane_name PNG = ''PNG''"
| "pane_name GIF = ''GIF''"
| "pane_name JPG = ''JPG''"
| "pane_name SVG = ''SVG''"
| "pane_name Matplotlib = ''Matplotlib''"
| "pane_name RGGPlot = ''RGGPlot''"
| "pane_name HTML = ''HTML''"
| "pane_name Str = ''Str''"
| "pane_name YT = ''YT''"

fun class_name :: "py_class \<Rightarrow> string" where
  "class_name (PaneClass c) = pane_name c"
| "class_name (OtherClass n) = n"

text \<open>
  A subscriber of a HoloViews stream is a plain function or a bound method; for a
  method, \<open>get_method_owner\<close> gives the plot that owns it (here its identifier) and
  \<open>owner.state\<close> is the Bokeh model the plot rendered. A model is known by its
  \<open>ref['id']\<close>.
\<close>

type_synonym node = nat

datatype subscriber = Function | Method nat "node option"

text \<open>
  What the module observes of an object: its class, the \<open>isinstance\<close> tests it makes,
  the attribute names \<open>hasattr\<close> finds, the text of a string, \<open>repr(obj)\<close>, and for a
  HoloViews object the subscribers of the streams of each \<open>DynamicMap\<close> that
  \<open>traverse\<close> reaches. \<open>repr\<close> and \<open>hasattr\<close> run code of the object: \<open>repr(obj)\<close>
  is the string or the exception \<open>__repr__\<close> raises, and \<open>obj_attr_errors\<close> lists the
  attributes whose lookup raises something other than \<open>AttributeError\<close>, which
  \<open>hasattr\<close> lets through (as Python 3 does).
\<close>

record pyobj =
  obj_class :: py_class
  obj_viewable :: bool
  obj_layoutdom :: bool
  obj_dimensioned :: bool
  obj_figure :: bool
  obj_canvas_none :: bool
  obj_attrs :: "string list"
  obj_attr_errors :: "(string \<times> error) list"
  obj_str :: "string option"
  obj_repr :: "error + string"
  obj_dmaps :: "subscriber list list list"

text \<open>The interpreter state the predicates read: \<open>sys.modules\<close> and \<open>os.path.isfile\<close>.\<close>

record runtime =
  sys_modules :: "string list"
  isfile :: "string \<Rightarrow> bool"

definition hasattr :: "pyobj \<Rightarrow> string \<Rightarrow> error + bool" where
  "hasattr obj a =
     (case map_of (obj_attr_errors obj) a of
        Some e \<Rightarrow> Inl e
      | None \<Rightarrow> Inr (a \<in> set (obj_attrs obj)))"

text \<open>
  \<open>a or b\<close> and \<open>a and b\<close> on operands that may raise: the right operand is evaluated
  only when the left one does not decide, so only then can its exception appear.
\<close>

fun or_else :: "error + bool \<Rightarrow> error + bool \<Rightarrow> error + bool" where
  "or_else (Inl e) b = Inl e"
| "or_else (Inr True) b = Inr True"
| "or_else (Inr False) b = b"

fun and_also :: "error + bool \<Rightarrow> error + bool \<Rightarrow> error + bool" where
  "and_also (Inl e) b = Inl e"
| "and_also (Inr False) b = Inr False"
| "and_also (Inr True) b = b"

text \<open>\<open>Image.applies\<close>, which \<open>PNG\<close>, \<open>GIF\<close> and \<open>JPG\<close> inherit with their own \<open>imgtype\<close>.\<close>

definition Image_applies :: "runtime \<Rightarrow> string \<Rightarrow> pyobj \<Rightarrow> error + bool" where
  "Image_applies rt imgtype obj =
     or_else (hasattr obj (''_repr_'' @ imgtype @ ''_''))
       (Inr (case obj_str obj of
               None \<Rightarrow> False
             | Some s \<Rightarrow>
                 (isfile rt s \<and> endswith s (''.'' @ imgtype)) \<or>
                 ((startswith s ''http://'' \<or> startswith s ''https://'')
                    \<and> endswith s (''.'' @ imgtype))))"

text \<open>
  The \<open>applies\<close> classmethod of each class. \<open>Matplotlib.applies\<close> raises for a figure
  without a canvas, and a predicate that calls \<open>hasattr\<close> or \<open>repr\<close> raises what the
  object's own code raises there.
\<close>

fun applies :: "runtime \<Rightarrow> pane_class \<Rightarrow> pyobj \<Rightarrow> error + bool" where
  "applies rt Bokeh obj = Inr (obj_layoutdom obj)"
| "applies rt HoloViews obj =
     (if ''holoviews'' \<in> set (sys_modules rt) then Inr (obj_dimensioned obj) else Inr False)"
| "applies rt Image obj = Image_applies rt ''None'' obj"
| "applies rt PNG obj = Image_applies rt ''png'' obj"
| "applies rt GIF obj = Image_applies rt ''gif'' obj"
| "applies rt JPG obj = Image_applies rt ''jpg'' obj"
| "applies rt SVG obj =
     or_else (Image_applies rt ''svg'' obj)
       (Inr (case obj_str obj of None \<Rightarrow> False | Some s \<Rightarrow> startswith (lstrip s) ''<svg''))"
| "applies rt Matplotlib obj =
     (if ''matplotlib'' \<in> set (sys_modules rt) then
        (if obj_figure obj \<and> obj_canvas_none obj
         then Inl (ValueError ''Matplotlib figure has no canvas and cannot be rendered.'')
         else Inr (obj_figure obj))
      else Inr False)"
| "applies rt RGGPlot obj =
     and_also (Inr (class_name (obj_class obj) = ''GGPlot'')) (hasattr obj ''r_repr'')"
| "applies rt HTML obj =
     or_else (hasattr obj ''_repr_html_'')
       (Inr (case obj_str obj of None \<Rightarrow> False | Some s \<Rightarrow> True))"
| "applies rt Str obj = Inr True"
| "applies rt YT obj =
     and_also (case obj_repr obj of Inl e \<Rightarrow> Inl e | Inr r \<Rightarrow> Inr (contains r ''yt''))
       (and_also (hasattr obj ''plots'') (hasattr obj ''_repr_html_''))"

text \<open>
  The class attribute \<open>precedence\<close>: 0.5 unless a class overrides it. The floats are
  the exact decimals written in the source, compared as rationals.
\<close>

fun precedence :: "pane_class \<Rightarrow> rat" where
  "precedence Bokeh = 8 / 10"
| "precedence HoloViews = 8 / 10"
| "precedence HTML = 2 / 10"
| "precedence Str = 0"
| "precedence YT = 5 / 10"
| "precedence c = 5 / 10"

text \<open>The class attribute \<open>_updates\<close>: set by \<open>DivPaneBase\<close> for all its subclasses.\<close>

fun updates :: "pane_class \<Rightarrow> bool" where
  "updates Bokeh = False"
| "updates HoloViews = False"
| "updates c = True"

section \<open>Choosing the pane class: \<open>PaneBase.get_pane_type\<close>\<close>

text \<open>
  The loop over the ranked candidates: the first class whose \<open>applies\<close> is true is
  returned, an exception of \<open>applies\<close> propagates, and the \<open>raise TypeError\<close> after the
  loop is reached when the candidates are used up.
\<close>

fun first_applicable :: "runtime \<Rightarrow> (rat \<times> pane_class) list \<Rightarrow> pyobj \<Rightarrow> error + py_class" where
  "first_applicable rt [] obj =
     Inl (TypeError (class_name (obj_class obj) @ '' type could not be rendered.''))"
| "first_applicable rt ((_, pane_type) # rest) obj =
     (case applies rt pane_type obj of
        Inl e \<Rightarrow> Inl e
      | Inr b \<Rightarrow> if b then Inr (PaneClass pane_type) else first_applicable rt rest obj)"

text \<open>
  \<open>concrete_descendents\<close> stands for \<open>param.concrete_descendents(PaneBase).values()\<close>,
  in the order \<open>param\<close> enumerates the classes. Python's \<open>sorted\<close> is stable, as
  \<open>sort_key\<close> is, and \<open>reversed\<close> turns the ascending order round.
\<close>

definition get_pane_type :: "runtime \<Rightarrow> pane_class list \<Rightarrow> pyobj \<Rightarrow> error + py_class" where
  "get_pane_type rt concrete_descendents obj =
     (if obj_viewable obj then Inr (obj_class obj)
      else
        (let descendents = map (\<lambda>p. (precedence p, p)) concrete_descendents;
             pane_types = rev (sort_key fst descendents)
         in first_applicable rt pane_types obj))"

text \<open>
  The concrete pane classes of the module in the order \<open>param.concrete_descendents\<close>
  enumerates them: breadth first through \<open>__subclasses__()\<close> from \<open>PaneBase\<close>, the
  subclasses of a class in the order of their definition, the abstract classes left out.
\<close>

definition module_panes :: "pane_class list" where
  "module_panes =
     [Bokeh, HoloViews, Image, HTML, Str, PNG, GIF, JPG, SVG, YT, Matplotlib, RGGPlot]"

section \<open>Construction: \<open>PaneBase.__init__\<close>\<close>

text \<open>
  A pane instance: its class, the wrapped \<open>object\<close> (\<open>None\<close> after the final cleanup) and
  \<open>_callbacks\<close>, the watchers registered for each rendered model.
\<close>

record pane =
  pane_type :: pane_class
  pane_object :: "pyobj option"
  pane_callbacks :: "(node \<times> nat list) list"

text \<open>\<open>name[:-5]\<close> drops the last five characters (all of a shorter name).\<close>

definition drop_last5 :: "string \<Rightarrow> string" where
  "drop_last5 name = take (length name - 5) name"

definition not_understood :: "pane_class \<Rightarrow> pyobj \<Rightarrow> string" where
  "not_understood cls obj =
     (let name = pane_name cls in
      class_name (obj_class obj) @ '' object not understood by '' @ name @
        '', expected '' @ drop_last5 name @ '' object.'')"

text \<open>
  \<open>__init__\<close> checks \<open>applies\<close> and then hands the object to the constructor of
  \<open>param.Parameterized\<close>, which stores it; the other parameters are left out.
\<close>

definition PaneBase_init :: "runtime \<Rightarrow> pane_class \<Rightarrow> pyobj \<Rightarrow> error + pane" where
  "PaneBase_init rt cls obj =
     (case applies rt cls obj of
        Inl e \<Rightarrow> Inl e
      | Inr b \<Rightarrow>
          if b then Inr \<lparr>pane_type = cls, pane_object = Some obj, pane_callbacks = []\<rparr>
          else Inl (ValueError (not_understood cls obj)))"

section \<open>Releasing a model: \<open>_cleanup\<close>\<close>

text \<open>
  Modelled from the spec: \<open>Reactive._cleanup\<close> of panel/viewable.py, which
  \<open>PaneBase._cleanup\<close> calls through \<open>super\<close> and which is not among the sources. The
  spec has it detach the subscriptions the wrapper owns for the node and never raise for a
  node that is already detached: the watchers recorded for the model are dropped, and no
  model or an unknown one leaves the pane as it is.
\<close>

definition Reactive_cleanup :: "pane \<Rightarrow> node option \<Rightarrow> bool \<Rightarrow> pane" where
  "Reactive_cleanup p model final =
     (case model of
        None \<Rightarrow> p
      | Some m \<Rightarrow> p\<lparr>pane_callbacks := filter (\<lambda>(k, ws). k \<noteq> m) (pane_callbacks p)\<rparr>)"

text \<open>
  \<open>PaneBase._cleanup\<close>. \<open>object\<close> is a \<open>param\<close> parameter, so \<open>self.object = None\<close>
  also notifies the watchers still registered on it: the \<open>update_pane\<close> of every other
  model the pane has rendered, which then runs as described further down and may raise.
  The definition is the store itself, which is all that happens when no watcher of another
  model is left.
\<close>

definition PaneBase_cleanup :: "pane \<Rightarrow> node option \<Rightarrow> bool \<Rightarrow> pane" where
  "PaneBase_cleanup p model final =
     (let p' = Reactive_cleanup p model final in
      if final then p'\<lparr>pane_object := None\<rparr> else p')"

text \<open>
  The three nested loops of \<open>HoloViews._cleanup\<close>: the owners of the bound methods
  subscribed to a stream whose \<open>state\<close> is the model, in the order they are met. Each
  gets \<open>owner.cleanup()\<close>.
\<close>

definition owners_to_clean :: "pyobj \<Rightarrow> node option \<Rightarrow> nat list" where
  "owners_to_clean obj model =
     concat (map (\<lambda>dmap. concat (map (\<lambda>stream.
       concat (map (\<lambda>sub. case sub of
                              Function \<Rightarrow> []
                            | Method owner state \<Rightarrow> if state = model then [owner] else [])
                   stream)) dmap)) (obj_dmaps obj))"

text \<open>
  \<open>HoloViews._cleanup\<close> starts with \<open>self.object.traverse(...)\<close>, an attribute lookup
  on \<open>self.object\<close>. The second component of the state lists the plots cleaned so far.
\<close>

definition HoloViews_cleanup ::
  "pane \<times> nat list \<Rightarrow> node option \<Rightarrow> bool \<Rightarrow> error + pane \<times> nat list" where
  "HoloViews_cleanup s model final =
     (case pane_object (fst s) of
        None \<Rightarrow> Inl (AttributeError ''NoneType object has no attribute traverse'')
      | Some obj \<Rightarrow>
          Inr (PaneBase_cleanup (fst s) model final, snd s @ owners_to_clean obj model))"

text \<open>\<open>pane._cleanup(model, final)\<close>, resolved by the class of the pane.\<close>

definition cleanup ::
  "pane \<times> nat list \<Rightarrow> node option \<Rightarrow> bool \<Rightarrow> error + pane \<times> nat list" where
  "cleanup s model final =
     (if pane_type (fst s) = HoloViews then HoloViews_cleanup s model final
      else Inr (PaneBase_cleanup (fst s) model final, snd s))"

section \<open>Following the object: \<open>PaneBase._link_object\<close>\<close>

text \<open>
  \<open>update_pane\<close> is the watcher \<open>_link_object\<close> registers on the \<open>object\<close> parameter.
  It calls the methods \<open>_update\<close>, \<open>_cleanup\<close> and \<open>_get_model\<close> of the pane, which
  differ from class to class and reach into Bokeh, HoloViews and the file system; they
  are parameters here, acting on a state \<open>'w\<close> of their own, and each may raise. None of
  them touches \<open>parent.children\<close> or the closure's \<open>history\<close> in this module.
\<close>

record 'w pane_methods =
  m_update :: "node \<Rightarrow> 'w \<Rightarrow> error option \<times> 'w"
  m_cleanup :: "node \<Rightarrow> 'w \<Rightarrow> error option \<times> 'w"
  m_get_model :: "'w \<Rightarrow> (error + node) \<times> 'w"

text \<open>The inner function \<open>update_models\<close> with the variables it closes over.\<close>

datatype update_models = Update_in_place node | Replace node node

datatype call = Called_update node | Called_cleanup node | Called_get_model

text \<open>
  The state \<open>update_pane\<close> works on: \<open>parent.children\<close>, \<open>history[0]\<close>, the callbacks
  handed to \<open>doc.add_next_tick_callback\<close>, the number of \<open>push(doc, comm)\<close> calls, and
  a log of the calls made to the pane's methods.
\<close>

record 'w session =
  world :: 'w
  children :: "node list"
  history :: node
  next_tick :: "update_models list"
  pushes :: nat
  calls :: "call list"

text \<open>\<open>xs.index(x)\<close>: the first position of \<open>x\<close>; Python raises \<open>ValueError\<close> without one.\<close>

fun index_of :: "'a list \<Rightarrow> 'a \<Rightarrow> nat option" where
  "index_of [] x = None"
| "index_of (y # ys) x = (if y = x then Some 0 else map_option Suc (index_of ys x))"

fun run_update_models ::
  "'w pane_methods \<Rightarrow> update_models \<Rightarrow> 'w session \<Rightarrow> error option \<times> 'w session" where
  "run_update_models ms (Update_in_place old_model) st =
     (case m_update ms old_model (world st) of
        (e, w) \<Rightarrow> (e, st\<lparr>world := w, calls := calls st @ [Called_update old_model]\<rparr>))"
| "run_update_models ms (Replace old_model new_model) st =
     (case index_of (children st) old_model of
        None \<Rightarrow> (Some (ValueError ''model is not in list''), st)
      | Some i \<Rightarrow> (None, st\<lparr>children := (children st)[i := new_model], history := new_model\<rparr>))"

text \<open>
  The end of \<open>update_pane\<close>: with a comm the update runs now and is pushed; without one
  it is queued for the next tick of the document.
\<close>

definition apply_or_defer ::
  "'w pane_methods \<Rightarrow> bool \<Rightarrow> update_models \<Rightarrow> 'w session \<Rightarrow> error option \<times> 'w session" where
  "apply_or_defer ms comm um st =
     (if comm then
        (case run_update_models ms um st of
           (Some e, st') \<Rightarrow> (Some e, st')
         | (None, st') \<Rightarrow> (None, st'\<lparr>pushes := Suc (pushes st')\<rparr>))
      else (None, st\<lparr>next_tick := next_tick st @ [um]\<rparr>))"

definition update_pane ::
  "'w pane_methods \<Rightarrow> pane_class \<Rightarrow> bool \<Rightarrow> 'w session \<Rightarrow> error option \<times> 'w session" where
  "update_pane ms cls comm st =
     (let old_model = history st in
      if updates cls then apply_or_defer ms comm (Update_in_place old_model) st
      else
        (case m_cleanup ms old_model (world st) of
           (Some e, w1) \<Rightarrow>
             (Some e, st\<lparr>world := w1, calls := calls st @ [Called_cleanup old_model]\<rparr>)
         | (None, w1) \<Rightarrow>
             (case m_get_model ms w1 of
                (Inl e, w2) \<Rightarrow>
                  (Some e, st\<lparr>world := w2,
                              calls := calls st @ [Called_cleanup old_model, Called_get_model]\<rparr>)
              | (Inr new_model, w2) \<Rightarrow>
                  apply_or_defer ms comm (Replace old_model new_model)
                    (st\<lparr>world := w2,
                        calls := calls st @ [Called_cleanup old_model, Called_get_model]\<rparr>))))"

section \<open>Widgets from dimensions: \<open>HoloViews.widgets_from_dimensions\<close>\<close>

text \<open>
  The values a dimension ranges over are numbers or other values (here text);
  \<open>holoviews.core.util.isnumeric\<close> tells them apart.
\<close>

datatype pyval = Num rat | Text string

fun isnumeric :: "pyval \<Rightarrow> bool" where
  "isnumeric (Num x) = True"
| "isnumeric (Text t) = False"

fun number :: "pyval \<Rightarrow> rat" where
  "number (Num x) = x"
| "number (Text t) = 0"

text \<open>A \<open>holoviews.Dimension\<close>, with the attributes the method reads.\<close>

record dimension =
  dim_name :: string
  dim_label :: string
  dim_values :: "pyval list"
  dim_range :: "rat option \<times> rat option"
  dim_default :: "pyval option"
  dim_step :: "rat option"

text \<open>
  The widget classes the method imports, and any other subclass of \<open>Widget\<close> a caller
  may name. A widget the method builds is the call it makes: the class and the keyword
  arguments \<open>name\<close>, \<open>options\<close>, \<open>value\<close>, or \<open>step\<close>, \<open>name\<close>, \<open>start\<close>, \<open>end\<close>,
  \<open>value\<close>. The constructors themselves belong to panel/widgets.py.
\<close>

datatype widget_class = DiscreteSlider | Select | FloatSlider | CustomWidget string

datatype options = Labelled "(string \<times> pyval) list" | Plain "pyval list"

datatype widget =
    Options_widget widget_class string options pyval
  | Range_widget widget_class rat string "rat option" "rat option" "pyval option"
  | Supplied string

text \<open>
  What the variable \<open>widget\<close> and the entries of \<open>widget_types\<close> can hold: a widget
  instance, a widget class, or something that is neither.
\<close>

datatype wvalue = Instance widget | Class widget_class | Other string

text \<open>
  \<open>zip(*keys)\<close>: the columns of the key tuples, as many as the shortest tuple has.
\<close>

definition zip_star :: "'a list list \<Rightarrow> 'a list list" where
  "zip_star keys =
     (case keys of
        [] \<Rightarrow> []
      | k # ks \<Rightarrow>
          map (\<lambda>i. map (\<lambda>t. t ! i) keys) [0 ..< foldr min (map length ks) (length k)])"

text \<open>
  \<open>dict(zip(dims, zip(*keys)))\<close> and \<open>values.get(dim, None)\<close>. A \<open>Dimension\<close> hashes
  and compares by its name and label, and a later pair of \<open>zip\<close> replaces an earlier one
  with an equal key.
\<close>

definition dim_key :: "dimension \<Rightarrow> string \<times> string" where
  "dim_key d = (dim_name d, dim_label d)"

definition values_get :: "dimension list \<Rightarrow> pyval list list \<Rightarrow> dimension \<Rightarrow> pyval list option" where
  "values_get dims keys d =
     map_of (rev (zip (map dim_key dims) (zip_star keys))) (dim_key d)"

text \<open>
  \<open>OrderedDict(zip(labels, vals))\<close>: a label met again keeps its place and takes the
  new value.
\<close>

fun ordered_dict :: "('k \<times> 'v) list \<Rightarrow> ('k \<times> 'v) list \<Rightarrow> ('k \<times> 'v) list" where
  "ordered_dict d [] = d"
| "ordered_dict d ((k, v) # kvs) =
     ordered_dict (if k \<in> fst ` set d then map (\<lambda>(k', v'). if k' = k then (k', v) else (k', v')) d
                   else d @ [(k, v)]) kvs"

text \<open>
  The body of the loop for one dimension. \<open>pprint_value\<close> is \<open>dim.pprint_value\<close>
  followed by \<open>unicode\<close>; \<open>widget\<close> is the loop's variable of that name, unbound
  (\<open>None\<close> here) until something is assigned to it, and kept from one dimension to the
  next. The result is the new \<open>widget\<close> and \<open>widgets\<close>.
\<close>

definition dimension_step ::
  "(dimension \<Rightarrow> pyval \<Rightarrow> string) \<Rightarrow> (string \<rightharpoonup> wvalue) \<Rightarrow> pyval list option \<Rightarrow> dimension
     \<Rightarrow> wvalue option \<times> wvalue list \<Rightarrow> error + wvalue option \<times> wvalue list" where
  "dimension_step pprint_value widget_types observed d st =
     (let vals = (if dim_values d \<noteq> [] then Some (dim_values d) else observed);
          override = widget_types (dim_name d);
          widget0 = (case override of None \<Rightarrow> fst st | Some w \<Rightarrow> Some w)
      in
      case override of
        Some (Instance w) \<Rightarrow> Inr (widget0, snd st @ [Instance w])
      | Some (Other w) \<Rightarrow>
          Inl (ValueError (''Explicit widget definitions expected to be a widget instance or type, ''
                 @ dim_name d @ '' dimension widget declared as '' @ w @ ''.''))
      | _ \<Rightarrow>
          (let widget_type = (case override of Some (Class c) \<Rightarrow> Some c | _ \<Rightarrow> None);
               widget1 =
                 (case vals of
                    Some (v # vs) \<Rightarrow>
                      (if list_all isnumeric (v # vs) then
                         (let sorted_vals = sort_key number (v # vs);
                              labels = map (pprint_value d) sorted_vals;
                              opts = Labelled (ordered_dict [] (zip labels sorted_vals));
                              wt = (case widget_type of None \<Rightarrow> DiscreteSlider | Some c \<Rightarrow> c);
                              default = (case dim_default d of
                                           None \<Rightarrow> hd sorted_vals | Some d \<Rightarrow> d)
                          in Some (Instance (Options_widget wt (dim_label d) opts default)))
                       else
                         (let opts = Plain (v # vs);
                              wt = (case widget_type of None \<Rightarrow> Select | Some c \<Rightarrow> c);
                              default = (case dim_default d of None \<Rightarrow> v | Some d \<Rightarrow> d)
                          in Some (Instance (Options_widget wt (dim_label d) opts default))))
                  | _ \<Rightarrow>
                      (if dim_range d = (None, None) then widget0
                       else
                         (let default = (case dim_default d of
                                           None \<Rightarrow> map_option Num (fst (dim_range d))
                                         | Some d \<Rightarrow> Some d);
                              step = (case dim_step d of None \<Rightarrow> 1 / 10 | Some s \<Rightarrow> s);
                              wt = (case widget_type of None \<Rightarrow> FloatSlider | Some c \<Rightarrow> c)
                          in Some (Instance (Range_widget wt step (dim_label d)
                                     (fst (dim_range d)) (snd (dim_range d)) default)))))
           in
           case widget1 of
             None \<Rightarrow> Inl (UnboundLocalError ''local variable widget referenced before assignment'')
           | Some w \<Rightarrow> Inr (widget1, snd st @ [w])))"

text \<open>The \<open>for dim in dims\<close> loop, from the state it has reached.\<close>

fun dimensions_loop ::
  "(dimension \<Rightarrow> pyval \<Rightarrow> string) \<Rightarrow> (string \<rightharpoonup> wvalue) \<Rightarrow> (dimension \<Rightarrow> pyval list option)
     \<Rightarrow> dimension list \<Rightarrow> wvalue option \<times> wvalue list \<Rightarrow> error + wvalue list" where
  "dimensions_loop pprint_value widget_types vals_of [] st = Inr (snd st)"
| "dimensions_loop pprint_value widget_types vals_of (d # dims) st =
     (case dimension_step pprint_value widget_types (vals_of d) d st of
        Inl e \<Rightarrow> Inl e
      | Inr st' \<Rightarrow> dimensions_loop pprint_value widget_types vals_of dims st')"

text \<open>
  \<open>dims\<close> and \<open>keys\<close> are what \<open>unique_dimkeys(object)\<close> returned. An object with the
  single dimension \<open>Frame\<close> and the single key \<open>(0,)\<close> gets no widgets.
\<close>

definition widgets_from_dimensions ::
  "(dimension \<Rightarrow> pyval \<Rightarrow> string) \<Rightarrow> dimension list \<times> pyval list list \<Rightarrow> (string \<rightharpoonup> wvalue)
     \<Rightarrow> error + wvalue list" where
  "widgets_from_dimensions pprint_value dimkeys widget_types =
     (let dims = fst dimkeys; keys = snd dimkeys in
      if map dim_key dims = [(''Frame'', ''Frame'')] \<and> keys = [[Num 0]] then Inr []
      else dimensions_loop pprint_value widget_types (values_get dims keys) dims (None, []))"

section \<open>Image sizes: \<open>_imgshape\<close>\<close>

text \<open>
  Image data is a list of bytes. \<open>struct.unpack\<close> reads unsigned integers of two or
  four bytes, big-endian (\<open>>\<close>) or little-endian (\<open><\<close>), and raises \<open>struct.error\<close>
  when the buffer has not exactly the size of the format. A slice \<open>data[i:j]\<close> never
  raises: it is as long as the data allows.
\<close>

type_synonym byte = "8 word"

definition be16 :: "byte list \<Rightarrow> nat" where
  "be16 s = unat (s ! 0) * 256 + unat (s ! 1)"

definition le16 :: "byte list \<Rightarrow> nat" where
  "le16 s = unat (s ! 0) + unat (s ! 1) * 256"

definition be32 :: "byte list \<Rightarrow> nat" where
  "be32 s = unat (s ! 0) * 16777216 + unat (s ! 1) * 65536 + unat (s ! 2) * 256 + unat (s ! 3)"

definition slice :: "nat \<Rightarrow> nat \<Rightarrow> 'a list \<Rightarrow> 'a list" where
  "slice i j xs = take (j - i) (drop i xs)"

definition struct_error :: error where
  "struct_error = StructError ''unpack requires a buffer of the size of the format''"

definition PNG_imgshape :: "byte list \<Rightarrow> error + int \<times> int" where
  "PNG_imgshape data =
     (let s = slice 16 24 data in
      if length s \<noteq> 8 then Inl struct_error
      else Inr (int (be32 (take 4 s)), int (be32 (drop 4 s))))"

definition GIF_imgshape :: "byte list \<Rightarrow> error + int \<times> int" where
  "GIF_imgshape data =
     (let s = slice 6 10 data in
      if length s \<noteq> 4 then Inl struct_error
      else Inr (int (le16 (take 2 s)), int (le16 (drop 2 s))))"

text \<open>
  \<open>JPG._imgshape\<close> reads from a \<open>BytesIO\<close>; \<open>b.read(1)\<close> gives one byte, or
  none at the end of the data, and \<open>ord\<close> of no byte raises \<open>TypeError\<close>. The two
  inner loops skip to a byte \<open>0xFF\<close> and then past the bytes \<open>0xFF\<close>; each returns the
  byte it stopped at and the data left.
\<close>

definition ord_error :: error where
  "ord_error = TypeError ''ord() expected a character, but string of length 0 found''"

fun read_until_ff :: "byte \<Rightarrow> byte list \<Rightarrow> error + byte \<times> byte list" where
  "read_until_ff c [] = (if c \<noteq> 255 then Inl ord_error else Inr (c, []))"
| "read_until_ff c (x # xs) = (if c \<noteq> 255 then read_until_ff x xs else Inr (c, x # xs))"

fun read_while_ff :: "byte \<Rightarrow> byte list \<Rightarrow> error + byte \<times> byte list" where
  "read_while_ff c [] = (if c = 255 then Inl ord_error else Inr (c, []))"
| "read_while_ff c (x # xs) = (if c = 255 then read_while_ff x xs else Inr (c, x # xs))"

text \<open>\<open>b.read(n)\<close> on a \<open>BytesIO\<close>: a negative \<open>n\<close> reads everything that is left.\<close>

definition read_neg :: "int \<Rightarrow> byte list \<Rightarrow> byte list" where
  "read_neg n b = (if n < 0 then [] else drop (nat n) b)"

lemma read_until_ff_length:
  "read_until_ff c b = Inr (c', b') \<Longrightarrow> length b' \<le> length b"
  by (induction c b rule: read_until_ff.induct) (auto split: if_splits)

lemma read_while_ff_length:
  "read_while_ff c b = Inr (c', b') \<Longrightarrow> length b' \<le> length b"
  by (induction c b rule: read_while_ff.induct) (auto split: if_splits)

text \<open>
  The outer loop, from the byte \<open>c\<close> last read (a list with one byte, or empty) and the
  data left. It returns \<open>(h, w)\<close> when a marker \<open>0xC0\<close> to \<open>0xC3\<close> sets them, and
  nothing when the loop ends with the two variables unbound. A segment with any other
  marker is skipped by its length field. Every round reads at least the two bytes of a
  length, so the loop ends.
\<close>

function JPG_scan :: "byte list \<Rightarrow> byte list \<Rightarrow> error + (nat \<times> nat) option" where
  "JPG_scan c b =
     (case c of
        [] \<Rightarrow> Inr None
      | c0 # _ \<Rightarrow>
          if c0 = 218 then Inr None
          else
            (case read_until_ff c0 b of
               Inl e \<Rightarrow> Inl e
             | Inr (c1, b1) \<Rightarrow>
                 (case read_while_ff c1 b1 of
                    Inl e \<Rightarrow> Inl e
                  | Inr (c2, b2) \<Rightarrow>
                      if 192 \<le> c2 \<and> c2 \<le> 195 then
                        (let b3 = drop 3 b2; s = take 4 b3 in
                         if length s \<noteq> 4 then Inl struct_error
                         else Inr (Some (be16 (take 2 s), be16 (drop 2 s))))
                      else
                        (let s = take 2 b2; b3 = drop 2 b2 in
                         if length s \<noteq> 2 then Inl struct_error
                         else
                           (let b4 = read_neg (int (be16 s) - 2) b3 in
                            JPG_scan (take 1 b4) (drop 1 b4))))))"
  by pat_completeness auto
termination
proof (relation "measure (\<lambda>(c, b). length b)", goal_cases)
  case 1
  show ?case by simp
next
  case (2 c b c0 cs r1 c1 b1 r2 c2 b2 b3 s b4)
  from 2 have l1: "length b1 \<le> length b"
    using read_until_ff_length by metis
  from 2 have l2: "length b2 \<le> length b1"
    using read_while_ff_length by metis
  from 2 have "length b2 \<ge> 2" by auto
  moreover from 2 have "length b4 \<le> length b2 - 2"
    by (auto simp: read_neg_def)
  ultimately show ?case using l1 l2 by simp
qed

text \<open>
  \<open>return int(w), int(h)\<close> raises \<open>UnboundLocalError\<close> when no such marker was met.
\<close>

definition JPG_imgshape :: "byte list \<Rightarrow> error + int \<times> int" where
  "JPG_imgshape data =
     (let b = drop 2 data in
      case JPG_scan (take 1 b) (drop 1 b) of
        Inl e \<Rightarrow> Inl e
      | Inr None \<Rightarrow> Inl (UnboundLocalError ''local variable w referenced before assignment'')
      | Inr (Some (h, w)) \<Rightarrow> Inr (int w, int h))"

text \<open>
  A JPEG segment as the standard writes it: \<open>0xFF\<close>, the marker, the length of the
  segment (the two length bytes and the payload) in two bytes, big-endian, and the
  payload. The markers the loop takes for a start of frame are \<open>0xC0\<close> to \<open>0xC3\<close>; a
  segment it can step over has another marker and a length that fits in two bytes.
\<close>

definition segment :: "byte \<Rightarrow> byte list \<Rightarrow> byte list" where
  "segment m payload =
     [255, m, of_nat ((length payload + 2) div 256), of_nat ((length payload + 2) mod 256)]
       @ payload"

definition is_sof :: "byte \<Rightarrow> bool" where
  "is_sof m = (192 \<le> m \<and> m \<le> 195)"

fun skippable :: "byte \<times> byte list \<Rightarrow> bool" where
  "skippable (m, payload) = (m \<noteq> 255 \<and> \<not> is_sof m \<and> length payload + 2 < 65536)"

section \<open>Objects and runtimes used as examples\<close>

text \<open>
  An interpreter with neither HoloViews nor matplotlib imported and no file on disk, and
  one with matplotlib imported. The objects: an integer, an object with both
  \<open>_repr_png_\<close> and \<open>_repr_gif_\<close>, a matplotlib figure whose canvas is \<open>None\<close>, and
  an object whose \<open>__repr__\<close> raises.
\<close>

definition plain_runtime :: runtime where
  "plain_runtime = \<lparr>sys_modules = [], isfile = (\<lambda>path. False)\<rparr>"

definition matplotlib_runtime :: runtime where
  "matplotlib_runtime = \<lparr>sys_modules = [''matplotlib''], isfile = (\<lambda>path. False)\<rparr>"

definition plain_object :: "string \<Rightarrow> string \<Rightarrow> pyobj" where
  "plain_object cls r =
     \<lparr>obj_class = OtherClass cls, obj_viewable = False, obj_layoutdom = False,
      obj_dimensioned = False, obj_figure = False, obj_canvas_none = False,
      obj_attrs = [], obj_attr_errors = [], obj_str = None, obj_repr = Inr r,
      obj_dmaps = []\<rparr>"

definition int_object :: pyobj where
  "int_object = plain_object ''int'' ''5''"

definition two_reprs_object :: pyobj where
  "two_reprs_object = (plain_object ''Chart'' ''<Chart>'')\<lparr>obj_attrs := [''_repr_png_'', ''_repr_gif_'']\<rparr>"

definition figure_without_canvas :: pyobj where
  "figure_without_canvas =
     (plain_object ''Figure'' ''<Figure>'')\<lparr>obj_figure := True, obj_canvas_none := True\<rparr>"

definition raising_repr_object :: pyobj where
  "raising_repr_object =
     (plain_object ''Lazy'' [])\<lparr>obj_repr := Inl (RuntimeError ''cannot show'')\<rparr>"

text \<open>
  A HoloViews object with one \<open>DynamicMap\<close> whose stream has two plots subscribed, the
  first of them the plot that rendered model 1, and a pane wrapping it.
\<close>

definition hv_object :: pyobj where
  "hv_object =
     (plain_object ''DynamicMap'' '':DynamicMap [x]'')
       \<lparr>obj_dimensioned := True,
        obj_dmaps := [[[Method 7 (Some 1), Function, Method 8 (Some 2)]]]\<rparr>"

definition hv_pane :: pane where
  "hv_pane = \<lparr>pane_type = HoloViews, pane_object = Some hv_object, pane_callbacks = [(1, [0])]\<rparr>"

text \<open>
  Two sets of pane methods over a counter: one that always succeeds, numbering the models
  \<open>_get_model\<close> builds from 100, and one whose three methods raise. The session shows a
  parent with three children, the pane's model the second of them.
\<close>

definition counting_methods :: "nat pane_methods" where
  "counting_methods =
     \<lparr>m_update = (\<lambda>model w. (None, Suc w)),
      m_cleanup = (\<lambda>model w. (None, w)),
      m_get_model = (\<lambda>w. (Inr (100 + w), Suc w))\<rparr>"

definition failing_methods :: "nat pane_methods" where
  "failing_methods =
     \<lparr>m_update = (\<lambda>model w. (Some struct_error, w)),
      m_cleanup = (\<lambda>model w. (Some (AttributeError ''traverse''), w)),
      m_get_model = (\<lambda>w. (Inl struct_error, w))\<rparr>"

definition example_session :: "nat session" where
  "example_session =
     \<lparr>world = 0, children = [10, 11, 12], history = 11, next_tick = [], pushes = 0, calls = []\<rparr>"

text \<open>
  Three dimensions: \<open>color\<close> with declared values, \<open>level\<close> with a range, a step and a
  default, and \<open>x\<close> with neither values nor a range.
\<close>

definition color_dim :: dimension where
  "color_dim =
     \<lparr>dim_name = ''color'', dim_label = ''color'',
      dim_values = [Text ''red'', Text ''green'', Text ''blue''],
      dim_range = (None, None), dim_default = None, dim_step = None\<rparr>"

definition level_dim :: dimension where
  "level_dim =
     \<lparr>dim_name = ''level'', dim_label = ''level'', dim_values = [],
      dim_range = (Some 0, Some 10), dim_default = Some (Num 4), dim_step = Some 2\<rparr>"

definition free_dim :: dimension where
  "free_dim =
     \<lparr>dim_name = ''x'', dim_label = ''x'', dim_values = [],
      dim_range = (None, None), dim_default = None, dim_step = None\<rparr>"

chapter \<open>Properties\<close>

section \<open>Choosing the pane class\<close>

lemmas fixture_defs =
  plain_runtime_def matplotlib_runtime_def plain_object_def int_object_def two_reprs_object_def
  figure_without_canvas_def raising_repr_object_def

lemmas applies_defs = Image_applies_def hasattr_def endswith_def

text \<open>
  A list sorted by a key splits into the elements below a key value, at it and above it;
  with the stability of \<open>sort_key\<close> this places a class in the ranking.
\<close>

lemma sorted_split:
  "sorted (map f S) \<Longrightarrow>
     S = filter (\<lambda>y. f y < k) S @ filter (\<lambda>y. f y = k) S @ filter (\<lambda>y. k < f y) S"
proof (induction S)
  case Nil
  then show ?case by simp
next
  case (Cons a S)
  then have le: "\<forall>y\<in>set S. f a \<le> f y" and IH: "S = filter (\<lambda>y. f y < k) S @ filter (\<lambda>y. f y = k) S @ filter (\<lambda>y. k < f y) S"
    by auto
  show ?case
  proof (cases "f a < k")
    case True
    then show ?thesis using IH by auto
  next
    case False
    then have none: "filter (\<lambda>y. f y < k) S = []"
      using le by (auto simp: filter_empty_conv)
    show ?thesis
    proof (cases "f a = k")
      case True
      then show ?thesis using IH none by auto
    next
      case False
      with \<open>\<not> f a < k\<close> have gt: "k < f a" by auto
      then have "filter (\<lambda>y. f y = k) S = []"
        using le by (auto simp: filter_empty_conv)
      then show ?thesis using IH none gt by auto
    qed
  qed
qed

lemma first_applicable_skip:
  "\<forall>c\<in>set P. applies rt (snd c) v = Inr False \<Longrightarrow>
     first_applicable rt (P @ Q) v = first_applicable rt Q v"
  by (induction P) auto

lemma ranking_split:
  fixes xs ys :: "pane_class list"
  defines "g \<equiv> \<lambda>p. (precedence p, p)"
  shows "\<exists>A B. rev (sort_key fst (map g (xs @ T # ys))) = B @ g T # A
            \<and> (\<forall>c\<in>set B. (snd c \<in> set ys \<and> precedence T \<le> precedence (snd c))
                            \<or> (snd c \<in> set xs \<and> precedence T < precedence (snd c)))"
proof -
  let ?D = "map g (xs @ T # ys)"
  let ?S = "sort_key fst ?D"
  let ?k = "precedence T"
  have split: "?S = filter (\<lambda>y. fst y < ?k) ?S @ filter (\<lambda>y. fst y = ?k) ?S @ filter (\<lambda>y. ?k < fst y) ?S"
    by (rule sorted_split) simp
  have eq: "filter (\<lambda>y. fst y = ?k) ?S = filter (\<lambda>y. fst y = ?k) (map g xs) @ g T # filter (\<lambda>y. fst y = ?k) (map g ys)"
    by (simp add: sort_key_stable g_def)
  define A where "A = rev (filter (\<lambda>y. fst y < ?k) ?S @ filter (\<lambda>y. fst y = ?k) (map g xs))"
  define B where "B = rev (filter (\<lambda>y. fst y = ?k) (map g ys) @ filter (\<lambda>y. ?k < fst y) ?S)"
  have "?S = rev A @ g T # rev B"
    using split unfolding eq A_def B_def by simp
  then have "rev ?S = B @ g T # A"
    by (metis append_Cons append_Nil append_assoc rev.simps(2) rev_append rev_rev_ident)
  moreover have "\<forall>c\<in>set B. (snd c \<in> set ys \<and> ?k \<le> precedence (snd c))
                            \<or> (snd c \<in> set xs \<and> ?k < precedence (snd c))"
    by (auto simp: B_def g_def)
  ultimately show ?thesis by blast
qed

text \<open>
  C1, as amended. For a value \<open>v\<close> that is not a \<open>Viewable\<close> and a registered class
  \<open>T\<close> whose \<open>applies\<close> accepts \<open>v\<close>: when every registered class of strictly higher
  precedence, and every class of equal precedence enumerated after \<open>T\<close>, returns false on
  \<open>v\<close>, \<open>get_pane_type\<close> selects \<open>T\<close>. The candidates are ranked by precedence
  descending, classes of equal precedence in the reverse of their enumeration, and the
  first whose \<open>applies\<close> accepts the value wins.
\<close>

theorem get_pane_type_selects:
  assumes "\<not> obj_viewable v" and "applies rt T v = Inr True"
    and "\<forall>U\<in>set xs. precedence T < precedence U \<longrightarrow> applies rt U v = Inr False"
    and "\<forall>U\<in>set ys. precedence T \<le> precedence U \<longrightarrow> applies rt U v = Inr False"
  shows "get_pane_type rt (xs @ T # ys) v = Inr (PaneClass T)"
proof -
  obtain A B where r: "rev (sort_key fst (map (\<lambda>p. (precedence p, p)) (xs @ T # ys)))
                         = B @ (precedence T, T) # A"
    and B: "\<forall>c\<in>set B. (snd c \<in> set ys \<and> precedence T \<le> precedence (snd c))
                            \<or> (snd c \<in> set xs \<and> precedence T < precedence (snd c))"
    using ranking_split [of xs T ys] by blast
  have "\<forall>c\<in>set B. applies rt (snd c) v = Inr False"
    using B assms(3,4) by blast
  then have "first_applicable rt (B @ (precedence T, T) # A) v
               = first_applicable rt ((precedence T, T) # A) v"
    by (rule first_applicable_skip)
  also have "\<dots> = Inr (PaneClass T)"
    using assms(2) by simp
  finally show ?thesis
    using assms(1) r by (simp add: get_pane_type_def)
qed

theorem get_pane_type_selects_witness:
  "\<not> obj_viewable two_reprs_object
   \<and> applies plain_runtime GIF two_reprs_object = Inr True
   \<and> module_panes = [Bokeh, HoloViews, Image, HTML, Str, PNG] @ GIF # [JPG, SVG, YT, Matplotlib, RGGPlot]
   \<and> get_pane_type plain_runtime module_panes two_reprs_object = Inr (PaneClass GIF)"
  using get_pane_type_selects [of two_reprs_object plain_runtime GIF
          "[Bokeh, HoloViews, Image, HTML, Str, PNG]" "[JPG, SVG, YT, Matplotlib, RGGPlot]"]
  by (simp add: fixture_defs module_panes_def applies_defs)

text \<open>
  The claim as first stated asks only that no class of strictly higher precedence
  accepts the value. \<open>PNG\<close> and \<open>GIF\<close> share the precedence 0.5 and both accept an
  object with the two representations; no class above them does, and only one of the
  two can be selected.
\<close>

theorem get_pane_type_tie_counterexample:
  "\<not> (\<forall>T\<in>set module_panes.
        applies plain_runtime T two_reprs_object = Inr True
        \<and> (\<forall>U\<in>set module_panes. precedence T < precedence U
               \<longrightarrow> applies plain_runtime U two_reprs_object \<noteq> Inr True)
        \<longrightarrow> get_pane_type plain_runtime module_panes two_reprs_object = Inr (PaneClass T))"
proof -
  have sel: "get_pane_type plain_runtime module_panes two_reprs_object = Inr (PaneClass GIF)"
    by (simp add: get_pane_type_def module_panes_def fixture_defs applies_defs)
  have png: "applies plain_runtime PNG two_reprs_object = Inr True"
    by (simp add: fixture_defs applies_defs)
  have higher: "\<forall>U\<in>set module_panes. precedence PNG < precedence U
               \<longrightarrow> applies plain_runtime U two_reprs_object \<noteq> Inr True"
    by (simp add: module_panes_def fixture_defs applies_defs)
  have mem: "PNG \<in> set module_panes" by (simp add: module_panes_def)
  show ?thesis
  proof
    assume all: "\<forall>T\<in>set module_panes.
        applies plain_runtime T two_reprs_object = Inr True
        \<and> (\<forall>U\<in>set module_panes. precedence T < precedence U
               \<longrightarrow> applies plain_runtime U two_reprs_object \<noteq> Inr True)
        \<longrightarrow> get_pane_type plain_runtime module_panes two_reprs_object = Inr (PaneClass T)"
    have "get_pane_type plain_runtime module_panes two_reprs_object = Inr (PaneClass PNG)"
      using all [rule_format, OF mem] png higher by blast
    with sel show False by simp
  qed
qed

lemma ranking_set:
  "snd ` set (rev (sort_key fst (map (\<lambda>p. (precedence p, p)) reg))) = set reg"
  by (simp add: image_image)

text \<open>
  The loop reaches the \<open>raise TypeError\<close> after it when every candidate has returned
  false.
\<close>

lemma first_applicable_none:
  "\<forall>c\<in>set L. applies rt (snd c) v = Inr False \<Longrightarrow>
     first_applicable rt L v
       = Inl (TypeError (class_name (obj_class v) @ '' type could not be rendered.''))"
  by (induction L) auto

text \<open>
  With \<open>Str\<close> among the candidates the loop ends in one of two ways only: it returns a
  class, or the \<open>applies\<close> of a candidate raises and that exception is the result.
\<close>

lemma first_applicable_outcome:
  "Str \<in> snd ` set L \<Longrightarrow>
     (\<exists>T. first_applicable rt L v = Inr T)
     \<or> (\<exists>c\<in>set L. \<exists>e. applies rt (snd c) v = Inl e \<and> first_applicable rt L v = Inl e)"
proof (induction L)
  case Nil
  then show ?case by simp
next
  case (Cons a L)
  obtain q c where a: "a = (q, c)" by (cases a)
  show ?case
  proof (cases "applies rt c v")
    case (Inl e)
    then show ?thesis using a by auto
  next
    case (Inr b)
    show ?thesis
    proof (cases b)
      case True
      then show ?thesis using Inr a by simp
    next
      case False
      then have "c \<noteq> Str" using Inr by auto
      then have "Str \<in> snd ` set L" using Cons.prems a by auto
      from Cons.IH [OF this] show ?thesis using Inr False a by auto
    qed
  qed
qed

text \<open>
  C5, as amended. \<open>Str.applies\<close> is true of every value and \<open>Str\<close> has the lowest
  precedence, 0. So where \<open>Str\<close> is registered the loop of \<open>get_pane_type\<close> never runs
  out of candidates: the call returns a class, or it propagates the exception the
  \<open>applies\<close> of a registered class raised on the value. When no registered \<open>applies\<close>
  raises on the value, a class is returned.
\<close>

theorem Str_accepts_everything:
  "applies rt Str v = Inr True
   \<and> (\<forall>c. precedence Str \<le> precedence c)
   \<and> (Str \<in> set reg \<longrightarrow>
        (\<exists>T. get_pane_type rt reg v = Inr T)
        \<or> (\<exists>c\<in>set reg. \<exists>e. applies rt c v = Inl e \<and> get_pane_type rt reg v = Inl e))
   \<and> (Str \<in> set reg \<and> (\<forall>c\<in>set reg. \<exists>b. applies rt c v = Inr b)
      \<longrightarrow> (\<exists>T. get_pane_type rt reg v = Inr T))"
proof -
  let ?L = "rev (sort_key fst (map (\<lambda>p. (precedence p, p)) reg))"
  have outcome: "(\<exists>T. get_pane_type rt reg v = Inr T)
        \<or> (\<exists>c\<in>set reg. \<exists>e. applies rt c v = Inl e \<and> get_pane_type rt reg v = Inl e)"
    if str: "Str \<in> set reg"
  proof (cases "obj_viewable v")
    case True
    then show ?thesis by (simp add: get_pane_type_def)
  next
    case False
    then have g: "get_pane_type rt reg v = first_applicable rt ?L v"
      by (simp add: get_pane_type_def)
    have mem: "snd c \<in> set reg" if "c \<in> set ?L" for c
    proof -
      from that have "snd c \<in> snd ` set ?L" by (rule imageI)
      then show ?thesis by (simp only: ranking_set)
    qed
    have "Str \<in> snd ` set ?L"
      using str by (simp only: ranking_set)
    from first_applicable_outcome [OF this, of rt v] show ?thesis
      unfolding g using mem by blast
  qed
  have 1: "applies rt Str v = Inr True" by simp
  have 2: "\<forall>c. precedence Str \<le> precedence c"
  proof
    fix c show "precedence Str \<le> precedence c" by (cases c) simp_all
  qed
  have 4: "\<exists>T. get_pane_type rt reg v = Inr T"
    if "Str \<in> set reg \<and> (\<forall>c\<in>set reg. \<exists>b. applies rt c v = Inr b)"
    using outcome that by fastforce
  from 1 2 outcome 4 show ?thesis by blast
qed

theorem Str_accepts_everything_witness:
  "Str \<in> set module_panes
   \<and> list_all (\<lambda>c. \<not> isl (applies plain_runtime c int_object)) module_panes
   \<and> get_pane_type plain_runtime module_panes int_object = Inr (PaneClass Str)"
  using Str_accepts_everything [of plain_runtime int_object module_panes]
  by (simp add: get_pane_type_def module_panes_def fixture_defs applies_defs)

text \<open>
  The loop does not always select a class. With matplotlib imported, a figure without a
  canvas makes \<open>Matplotlib.applies\<close> raise before \<open>Str\<close> is asked; and an object
  whose \<open>__repr__\<close> raises makes \<open>YT.applies\<close> raise, matplotlib or not.
\<close>

theorem Str_accepts_everything_counterexample:
  "get_pane_type matplotlib_runtime module_panes figure_without_canvas
     = Inl (ValueError ''Matplotlib figure has no canvas and cannot be rendered.'')
   \<and> get_pane_type plain_runtime module_panes raising_repr_object
     = Inl (RuntimeError ''cannot show'')"
  by (simp add: get_pane_type_def module_panes_def fixture_defs applies_defs)

section \<open>Construction\<close>

text \<open>
  The constructor raises for a value the class does not accept, and a pane that is
  constructed holds a value its class accepts. The message holds the name of the
  value's type and, after \<open>not understood by\<close>, the name of the pane class.
\<close>

lemma init_raises_on_mismatch:
  "applies rt cls obj = Inr False \<Longrightarrow>
     PaneBase_init rt cls obj = Inl (ValueError (not_understood cls obj))"
  by (simp add: PaneBase_init_def)

lemma init_holds_accepted_value:
  "PaneBase_init rt cls obj = Inr p \<Longrightarrow>
     applies rt cls obj = Inr True \<and> pane_type p = cls \<and> pane_object p = Some obj"
  by (auto simp: PaneBase_init_def split: sum.splits if_splits)

lemma not_understood_text:
  "not_understood cls obj
     = class_name (obj_class obj) @ '' object not understood by '' @ pane_name cls
         @ '', expected '' @ drop_last5 (pane_name cls) @ '' object.''"
  by (simp add: not_understood_def Let_def)

text \<open>
  C9. The claim has the error name the expected kind as well as the actual kind of the
  value. The words after \<open>expected\<close> are \<open>name[:-5]\<close>, the class name without its last
  five characters: nothing for nine of the twelve classes, and \<open>Holo\<close>, \<open>Matpl\<close> and
  \<open>RG\<close> for the others. An \<open>HTML\<close> pane on an integer raises with the message shown,
  which names no expected kind.
\<close>

theorem init_message_lacks_expected_kind:
  "PaneBase_init plain_runtime HTML int_object
     = Inl (ValueError ''int object not understood by HTML, expected  object.'')
   \<and> map (\<lambda>c. drop_last5 (pane_name c)) module_panes
     = [[], ''Holo'', [], [], [], [], [], [], [], [], ''Matpl'', ''RG'']"
  by (simp add: PaneBase_init_def not_understood_def drop_last5_def module_panes_def
      fixture_defs applies_defs)

section \<open>Releasing a model\<close>

text \<open>
  With \<open>final\<close> set, \<open>PaneBase._cleanup\<close> clears the object. For a pane of another
  class than \<open>HoloViews\<close> whose only watchers are those of the model being released, a
  second final cleanup finds the pane as the first left it. (These facts rest on the
  model of \<open>Reactive._cleanup\<close> taken from the spec.)
\<close>

lemma PaneBase_cleanup_final:
  "pane_object (PaneBase_cleanup p model True) = None"
  by (simp add: PaneBase_cleanup_def)

lemma PaneBase_cleanup_twice:
  "PaneBase_cleanup (PaneBase_cleanup p model True) model True = PaneBase_cleanup p model True"
  by (cases model) (simp_all add: PaneBase_cleanup_def Reactive_cleanup_def)

lemma cleanup_twice_other:
  assumes "pane_type (fst s) \<noteq> HoloViews"
    and "\<forall>c\<in>set (pane_callbacks (fst s)). fst c = m"
  shows "\<exists>s'. cleanup s (Some m) True = Inr s' \<and> pane_object (fst s') = None
               \<and> pane_callbacks (fst s') = [] \<and> cleanup s' (Some m) True = Inr s'"
proof -
  let ?s = "(PaneBase_cleanup (fst s) (Some m) True, snd s)"
  have t: "pane_type (PaneBase_cleanup (fst s) (Some m) True) = pane_type (fst s)"
    by (simp add: PaneBase_cleanup_def Reactive_cleanup_def)
  have "cleanup s (Some m) True = Inr ?s"
    using assms(1) by (simp add: cleanup_def)
  moreover have "pane_object (fst ?s) = None"
    by (simp add: PaneBase_cleanup_final)
  moreover have "pane_callbacks (fst ?s) = []"
    using assms(2) by (auto simp: PaneBase_cleanup_def Reactive_cleanup_def filter_empty_conv)
  moreover have "cleanup ?s (Some m) True = Inr ?s"
    using assms(1) t by (simp add: cleanup_def PaneBase_cleanup_twice)
  ultimately show ?thesis by blast
qed

text \<open>
  \<open>HoloViews._cleanup\<close> reads \<open>self.object\<close> before anything else; after a final
  cleanup that is \<open>None\<close>, whatever the model and the flag of the next call.
\<close>

lemma cleanup_twice_HoloViews:
  assumes "pane_type (fst s) = HoloViews" and "cleanup s model True = Inr s'"
  shows "pane_object (fst s') = None
         \<and> cleanup s' model' final
             = Inl (AttributeError ''NoneType object has no attribute traverse'')"
proof -
  from assms obtain obj where obj: "pane_object (fst s) = Some obj"
    by (auto simp: cleanup_def HoloViews_cleanup_def split: option.splits)
  with assms have s': "s' = (PaneBase_cleanup (fst s) model True, snd s @ owners_to_clean obj model)"
    by (simp add: cleanup_def HoloViews_cleanup_def)
  have t: "pane_type (fst s') = HoloViews"
    using assms(1) s' by (cases model) (simp_all add: PaneBase_cleanup_def Reactive_cleanup_def)
  have n: "pane_object (fst s') = None"
    using s' by (simp add: PaneBase_cleanup_final)
  show ?thesis
    using t n by (simp add: cleanup_def HoloViews_cleanup_def)
qed

text \<open>
  C6. The claim has the final cleanup idempotent for every pane class, the HoloViews
  pane included. For a HoloViews pane the first final cleanup succeeds, cleans the plot
  that rendered the model and clears the object; the second, on the same pane and
  model, raises \<open>AttributeError\<close>.
\<close>

theorem HoloViews_final_cleanup_twice:
  "cleanup (hv_pane, []) (Some 1) True
     = Inr (\<lparr>pane_type = HoloViews, pane_object = None, pane_callbacks = []\<rparr>, [7])
   \<and> cleanup (\<lparr>pane_type = HoloViews, pane_object = None, pane_callbacks = []\<rparr>, [7]) (Some 1) True
     = Inl (AttributeError ''NoneType object has no attribute traverse'')"
  by (simp add: cleanup_def HoloViews_cleanup_def PaneBase_cleanup_def Reactive_cleanup_def
      owners_to_clean_def hv_pane_def hv_object_def plain_object_def)

section \<open>Following the object\<close>

lemma index_of_Some:
  "index_of xs x = Some i \<Longrightarrow> i < length xs \<and> xs ! i = x"
proof (induction xs arbitrary: i)
  case Nil
  then show ?case by simp
next
  case (Cons y ys)
  then show ?case by (cases "y = x") auto
qed

lemma index_of_mem: "x \<in> set xs \<Longrightarrow> \<exists>i. index_of xs x = Some i"
  by (induction xs) auto

text \<open>
  C2. Let the watcher run for a pane whose current model \<open>old\<close> sits in the parent's
  children, its first occurrence at position \<open>i\<close>. If the class updates in place and
  \<open>_update\<close> succeeds, \<open>_update\<close> is called once on \<open>old\<close> and the children and the
  tracked model stay as they are. If it does not and \<open>_cleanup\<close> and \<open>_get_model\<close>
  succeed, \<open>_cleanup\<close> is called once on \<open>old\<close>, \<open>_get_model\<close> gives the new model,
  and the new model takes position \<open>i\<close> and becomes the tracked one. With a comm this
  is the state when the reassignment returns, pushed once; without a comm the calls to
  \<open>_cleanup\<close> and \<open>_get_model\<close> are made at once and the rest is the callback queued
  for the next tick, which has the same effect when the document runs it.
\<close>

theorem reassign_updates_or_replaces:
  assumes "history st = old" and "index_of (children st) old = Some i"
  shows
    "(updates cls \<and> m_update ms old (world st) = (None, w) \<longrightarrow>
        update_pane ms cls True st
          = (None, st\<lparr>world := w, calls := calls st @ [Called_update old],
                       pushes := Suc (pushes st)\<rparr>)
        \<and> update_pane ms cls False st
          = (None, st\<lparr>next_tick := next_tick st @ [Update_in_place old]\<rparr>)
        \<and> run_update_models ms (Update_in_place old)
             (st\<lparr>next_tick := next_tick st @ [Update_in_place old]\<rparr>)
          = (None, st\<lparr>next_tick := next_tick st @ [Update_in_place old],
                       world := w, calls := calls st @ [Called_update old]\<rparr>))
     \<and> (\<not> updates cls \<and> m_cleanup ms old (world st) = (None, w1)
          \<and> m_get_model ms w1 = (Inr new, w2) \<longrightarrow>
        update_pane ms cls True st
          = (None, st\<lparr>world := w2,
                       calls := calls st @ [Called_cleanup old, Called_get_model],
                       children := (children st)[i := new], history := new,
                       pushes := Suc (pushes st)\<rparr>)
        \<and> update_pane ms cls False st
          = (None, st\<lparr>world := w2,
                       calls := calls st @ [Called_cleanup old, Called_get_model],
                       next_tick := next_tick st @ [Replace old new]\<rparr>)
        \<and> run_update_models ms (Replace old new)
             (st\<lparr>world := w2,
                 calls := calls st @ [Called_cleanup old, Called_get_model],
                 next_tick := next_tick st @ [Replace old new]\<rparr>)
          = (None, st\<lparr>world := w2,
                       calls := calls st @ [Called_cleanup old, Called_get_model],
                       next_tick := next_tick st @ [Replace old new],
                       children := (children st)[i := new], history := new\<rparr>)
        \<and> i < length (children st) \<and> children st ! i = old
        \<and> (children st)[i := new] ! i = new
        \<and> count_list (calls st @ [Called_cleanup old, Called_get_model]) (Called_cleanup old)
            = Suc (count_list (calls st) (Called_cleanup old)))"
proof (intro conjI impI)
  assume h: "updates cls \<and> m_update ms old (world st) = (None, w)"
  show "update_pane ms cls True st
          = (None, st\<lparr>world := w, calls := calls st @ [Called_update old],
                       pushes := Suc (pushes st)\<rparr>)"
    using h assms(1) by (simp add: update_pane_def apply_or_defer_def)
  show "update_pane ms cls False st
          = (None, st\<lparr>next_tick := next_tick st @ [Update_in_place old]\<rparr>)"
    using h assms(1) by (simp add: update_pane_def apply_or_defer_def)
  show "run_update_models ms (Update_in_place old)
             (st\<lparr>next_tick := next_tick st @ [Update_in_place old]\<rparr>)
          = (None, st\<lparr>next_tick := next_tick st @ [Update_in_place old],
                       world := w, calls := calls st @ [Called_update old]\<rparr>)"
    using h by simp
next
  assume h: "\<not> updates cls \<and> m_cleanup ms old (world st) = (None, w1)
          \<and> m_get_model ms w1 = (Inr new, w2)"
  show "update_pane ms cls True st
          = (None, st\<lparr>world := w2,
                       calls := calls st @ [Called_cleanup old, Called_get_model],
                       children := (children st)[i := new], history := new,
                       pushes := Suc (pushes st)\<rparr>)"
    using h assms by (simp add: update_pane_def apply_or_defer_def)
  show "update_pane ms cls False st
          = (None, st\<lparr>world := w2,
                       calls := calls st @ [Called_cleanup old, Called_get_model],
                       next_tick := next_tick st @ [Replace old new]\<rparr>)"
    using h assms by (simp add: update_pane_def apply_or_defer_def)
  show "run_update_models ms (Replace old new)
             (st\<lparr>world := w2,
                 calls := calls st @ [Called_cleanup old, Called_get_model],
                 next_tick := next_tick st @ [Replace old new]\<rparr>)
          = (None, st\<lparr>world := w2,
                       calls := calls st @ [Called_cleanup old, Called_get_model],
                       next_tick := next_tick st @ [Replace old new],
                       children := (children st)[i := new], history := new\<rparr>)"
    using assms by simp
  show "i < length (children st)" "children st ! i = old"
    using index_of_Some [OF assms(2)] by simp_all
  then show "(children st)[i := new] ! i = new" by simp
  show "count_list (calls st @ [Called_cleanup old, Called_get_model]) (Called_cleanup old)
            = Suc (count_list (calls st) (Called_cleanup old))"
    by simp
qed

theorem reassign_updates_or_replaces_witness:
  "history example_session = 11 \<and> index_of (children example_session) 11 = Some 1
   \<and> updates HTML \<and> \<not> updates Bokeh
   \<and> update_pane counting_methods HTML True example_session
       = (None, \<lparr>world = 1, children = [10, 11, 12], history = 11, next_tick = [],
                 pushes = 1, calls = [Called_update 11]\<rparr>)
   \<and> update_pane counting_methods Bokeh True example_session
       = (None, \<lparr>world = 1, children = [10, 100, 12], history = 100, next_tick = [],
                 pushes = 1, calls = [Called_cleanup 11, Called_get_model]\<rparr>)
   \<and> update_pane counting_methods Bokeh False example_session
       = (None, \<lparr>world = 1, children = [10, 11, 12], history = 11,
                 next_tick = [Replace 11 100],
                 pushes = 0, calls = [Called_cleanup 11, Called_get_model]\<rparr>)"
  using reassign_updates_or_replaces [of example_session 11 1 HTML counting_methods 1]
    reassign_updates_or_replaces [of example_session 11 1 Bokeh counting_methods _ 0 100 1]
  by (simp add: example_session_def counting_methods_def)

text \<open>
  C3, as amended. An error raised by \<open>_cleanup\<close> or \<open>_get_model\<close> on the replacing
  path reaches the caller of the reassignment with or without a comm, and an error
  raised by \<open>_update\<close> on the in-place path reaches it when a comm is present; the
  children, the tracked model, the queue and the pushes are then as before. Without a
  comm the in-place path queues the call of \<open>_update\<close> and returns normally: the error
  is raised when the document runs the callback.
\<close>

theorem update_errors_surface:
  "(\<not> updates cls \<and> m_cleanup ms (history st) (world st) = (Some e, w1) \<longrightarrow>
      update_pane ms cls comm st
        = (Some e, st\<lparr>world := w1, calls := calls st @ [Called_cleanup (history st)]\<rparr>))
   \<and> (\<not> updates cls \<and> m_cleanup ms (history st) (world st) = (None, w1)
        \<and> m_get_model ms w1 = (Inl e, w2) \<longrightarrow>
      update_pane ms cls comm st
        = (Some e, st\<lparr>world := w2,
                       calls := calls st @ [Called_cleanup (history st), Called_get_model]\<rparr>))
   \<and> (updates cls \<and> m_update ms (history st) (world st) = (Some e, w1) \<longrightarrow>
      update_pane ms cls True st
        = (Some e, st\<lparr>world := w1, calls := calls st @ [Called_update (history st)]\<rparr>)
      \<and> update_pane ms cls False st
        = (None, st\<lparr>next_tick := next_tick st @ [Update_in_place (history st)]\<rparr>)
      \<and> run_update_models ms (Update_in_place (history st))
           (st\<lparr>next_tick := next_tick st @ [Update_in_place (history st)]\<rparr>)
        = (Some e, st\<lparr>next_tick := next_tick st @ [Update_in_place (history st)],
                       world := w1, calls := calls st @ [Called_update (history st)]\<rparr>))"
  by (simp add: update_pane_def apply_or_defer_def)

theorem update_errors_surface_witness:
  "\<not> updates Bokeh \<and> updates PNG
   \<and> update_pane failing_methods Bokeh False example_session
       = (Some (AttributeError ''traverse''),
          \<lparr>world = 0, children = [10, 11, 12], history = 11, next_tick = [],
           pushes = 0, calls = [Called_cleanup 11]\<rparr>)
   \<and> update_pane failing_methods PNG True example_session
       = (Some struct_error,
          \<lparr>world = 0, children = [10, 11, 12], history = 11, next_tick = [],
           pushes = 0, calls = [Called_update 11]\<rparr>)"
  using update_errors_surface [of Bokeh failing_methods example_session "AttributeError ''traverse''" 0 False]
    update_errors_surface [of PNG failing_methods example_session struct_error 0]
  by (simp add: example_session_def failing_methods_def)

text \<open>
  A pane that updates in place, no comm, and an \<open>_update\<close> that raises: the
  reassignment returns without an error and leaves the update queued.
\<close>

theorem update_error_deferred_counterexample:
  "updates PNG
   \<and> m_update failing_methods (history example_session) (world example_session)
       = (Some struct_error, 0)
   \<and> update_pane failing_methods PNG False example_session
       = (None, \<lparr>world = 0, children = [10, 11, 12], history = 11,
                 next_tick = [Update_in_place 11], pushes = 0, calls = []\<rparr>)"
  by (simp add: update_pane_def apply_or_defer_def example_session_def failing_methods_def)

section \<open>Widgets from dimensions\<close>

lemma values_get_no_keys: "values_get dims [] d = None"
  by (simp add: values_get_def zip_star_def)

lemma continuous_dimension:
  assumes "dim_values d = []" and "dim_range d \<noteq> (None, None)"
  shows "widgets_from_dimensions pp ([d], []) Map.empty
           = Inr [Instance (Range_widget FloatSlider
                    (case dim_step d of None \<Rightarrow> 1 / 10 | Some s \<Rightarrow> s)
                    (dim_label d) (fst (dim_range d)) (snd (dim_range d))
                    (case dim_default d of
                       None \<Rightarrow> map_option Num (fst (dim_range d)) | Some x \<Rightarrow> Some x))]"
  using assms
  by (simp add: widgets_from_dimensions_def dimension_step_def values_get_no_keys Let_def)

lemma fixture_widgets:
  "widgets_from_dimensions pp ([color_dim, level_dim], []) Map.empty
     = Inr [Instance (Options_widget Select ''color''
                        (Plain [Text ''red'', Text ''green'', Text ''blue'']) (Text ''red'')),
            Instance (Range_widget FloatSlider 2 ''level'' (Some 0) (Some 10) (Some (Num 4)))]"
  by (simp add: widgets_from_dimensions_def dimension_step_def values_get_no_keys Let_def
      color_dim_def level_dim_def dim_key_def)

text \<open>
  C7. For the dimensions \<open>color\<close> (values red, green, blue) and \<open>level\<close> (range 0 to
  10, step 2, default 4), no observed keys and no overrides, the method returns two
  widgets in that order: a \<open>Select\<close> over the three values with the first as its value,
  and a \<open>FloatSlider\<close> from 0 to 10 with step 2 and value 4. For any dimension without
  values and with a range, alone in an object without keys, the slider's step is the
  declared one or 0.1 and its value the declared default or the lower bound.
\<close>

theorem widgets_for_color_and_level:
  "widgets_from_dimensions pp ([color_dim, level_dim], []) Map.empty
     = Inr [Instance (Options_widget Select ''color''
                        (Plain [Text ''red'', Text ''green'', Text ''blue'']) (Text ''red'')),
            Instance (Range_widget FloatSlider 2 ''level'' (Some 0) (Some 10) (Some (Num 4)))]
   \<and> (dim_values d = [] \<and> dim_range d \<noteq> (None, None) \<longrightarrow>
        widgets_from_dimensions pp ([d], []) Map.empty
          = Inr [Instance (Range_widget FloatSlider
                   (case dim_step d of None \<Rightarrow> 1 / 10 | Some s \<Rightarrow> s)
                   (dim_label d) (fst (dim_range d)) (snd (dim_range d))
                   (case dim_default d of
                      None \<Rightarrow> map_option Num (fst (dim_range d)) | Some x \<Rightarrow> Some x))])"
  using fixture_widgets continuous_dimension by blast

theorem widgets_for_color_and_level_witness:
  "dim_values (level_dim\<lparr>dim_default := None, dim_step := None\<rparr>) = []
   \<and> dim_range (level_dim\<lparr>dim_default := None, dim_step := None\<rparr>) \<noteq> (None, None)
   \<and> widgets_from_dimensions (\<lambda>d v. '''')
        ([level_dim\<lparr>dim_default := None, dim_step := None\<rparr>], []) Map.empty
       = Inr [Instance (Range_widget FloatSlider (1 / 10) ''level'' (Some 0) (Some 10)
                          (Some (Num 0)))]"
  using widgets_for_color_and_level
    [of "\<lambda>d v. ''''" "level_dim\<lparr>dim_default := None, dim_step := None\<rparr>"]
  by (simp add: level_dim_def)

text \<open>
  C8. The claim has a dimension without values and without a range contribute no
  widget, without failing and without repeating another dimension's widget. The loop
  appends \<open>widget\<close> whether or not the dimension assigned it: alone, such a dimension
  raises \<open>UnboundLocalError\<close>; after \<open>color\<close> it appends the widget of \<open>color\<close> a
  second time; with a widget class as its override it appends the class itself.
\<close>

theorem unconstrained_dimension_misbehaves:
  "widgets_from_dimensions pp ([free_dim], []) Map.empty
     = Inl (UnboundLocalError ''local variable widget referenced before assignment'')
   \<and> widgets_from_dimensions pp ([color_dim, free_dim], []) Map.empty
     = Inr [Instance (Options_widget Select ''color''
                        (Plain [Text ''red'', Text ''green'', Text ''blue'']) (Text ''red'')),
            Instance (Options_widget Select ''color''
                        (Plain [Text ''red'', Text ''green'', Text ''blue'']) (Text ''red''))]
   \<and> widgets_from_dimensions pp ([free_dim], []) [''x'' \<mapsto> Class FloatSlider]
     = Inr [Class FloatSlider]"
  by (simp add: widgets_from_dimensions_def dimension_step_def values_get_no_keys Let_def
      color_dim_def free_dim_def dim_key_def)

section \<open>Image sizes\<close>

declare JPG_scan.simps [simp del]

lemma be16_length_field:
  assumes "n < 65536"
  shows "be16 [of_nat (n div 256), of_nat (n mod 256)] = n"
proof -
  have "n div 256 < 256" using assms by simp
  then have "unat (of_nat (n div 256) :: byte) = n div 256"
    by (simp add: unat_of_nat)
  moreover have "unat (of_nat (n mod 256) :: byte) = n mod 256"
    by (simp add: unat_of_nat)
  ultimately show ?thesis by (simp add: be16_def)
qed

lemma JPG_scan_skip_raw:
  assumes "m \<noteq> 255" and "\<not> (192 \<le> m \<and> m \<le> 195)" and "be16 [hi, lo] = length p + 2"
  shows "JPG_scan [255] ([m, hi, lo] @ p @ rest) = JPG_scan (take 1 rest) (drop 1 rest)"
proof -
  have nosof: "(192 \<le> m \<and> m \<le> 195) = False"
    using assms(2) by simp
  show ?thesis
    by (subst JPG_scan.simps) (simp add: assms(1,3) nosof read_neg_def Let_def)
qed

lemma JPG_scan_skip:
  assumes "skippable (m, p)"
  shows "JPG_scan [255] (tl (segment m p) @ rest) = JPG_scan (take 1 rest) (drop 1 rest)"
proof -
  from assms have n: "length p + 2 < 65536" and m: "m \<noteq> 255" "\<not> (192 \<le> m \<and> m \<le> 195)"
    by (auto simp: is_sof_def)
  have len: "be16 [of_nat ((length p + 2) div 256), of_nat ((length p + 2) mod 256)] = length p + 2"
    using n by (rule be16_length_field)
  have "tl (segment m p) @ rest
          = [m, of_nat ((length p + 2) div 256), of_nat ((length p + 2) mod 256)] @ p @ rest"
    by (simp add: segment_def)
  then show ?thesis
    using JPG_scan_skip_raw [OF m len] by simp
qed

lemma segments_start:
  "\<exists>t. concat (map (\<lambda>(k, p). segment k p) segs) @ 255 # rest = 255 # t"
  by (cases segs) (auto simp: segment_def)

lemma JPG_scan_sof:
  assumes "is_sof m"
  shows "JPG_scan [255] ([m, l1, l0, pr, h1, h0, w1, w0] @ rest)
           = Inr (Some (be16 [h1, h0], be16 [w1, w0]))"
proof -
  from assms have "m \<noteq> 255" by (auto simp: is_sof_def)
  then show ?thesis
    apply (subst JPG_scan.simps)
    using assms by (simp add: is_sof_def)
qed

lemma JPG_scan_segments:
  assumes "list_all skippable segs" and "is_sof m"
  shows "JPG_scan [255]
           (tl (concat (map (\<lambda>(k, p). segment k p) segs)
                 @ [255, m, l1, l0, pr, h1, h0, w1, w0] @ rest))
         = Inr (Some (be16 [h1, h0], be16 [w1, w0]))"
  using assms(1)
proof (induction segs)
  case Nil
  show ?case using JPG_scan_sof [OF assms(2)] by simp
next
  case (Cons a segs)
  obtain k p where a: "a = (k, p)" by (cases a)
  define tail where "tail = concat (map (\<lambda>(k, p). segment k p) segs)
                 @ [255, m, l1, l0, pr, h1, h0, w1, w0] @ rest"
  have sk: "skippable (k, p)" and rest: "list_all skippable segs"
    using Cons.prems a by auto
  obtain t where t: "tail = 255 # t"
    using segments_start [of segs "[m, l1, l0, pr, h1, h0, w1, w0] @ rest"]
    by (auto simp: tail_def)
  have "tl (concat (map (\<lambda>(k, p). segment k p) (a # segs))
              @ [255, m, l1, l0, pr, h1, h0, w1, w0] @ rest)
        = tl (segment k p) @ tail"
    by (simp add: a segment_def tail_def)
  then have "JPG_scan [255] (tl (concat (map (\<lambda>(k, p). segment k p) (a # segs))
              @ [255, m, l1, l0, pr, h1, h0, w1, w0] @ rest))
        = JPG_scan (take 1 tail) (drop 1 tail)"
    using JPG_scan_skip [OF sk] by simp
  also have "\<dots> = JPG_scan [255] (tl tail)"
    by (simp add: t)
  also have "\<dots> = Inr (Some (be16 [h1, h0], be16 [w1, w0]))"
    using Cons.IH [OF rest] by (simp only: tail_def)
  finally show ?case .
qed

lemma JPG_imgshape_segments:
  assumes "list_all skippable segs" and "is_sof m"
  shows "JPG_imgshape ([s0, s1] @ concat (map (\<lambda>(k, p). segment k p) segs)
                         @ [255, m, l1, l0, pr, h1, h0, w1, w0] @ rest)
         = Inr (int (be16 [w1, w0]), int (be16 [h1, h0]))"
proof -
  define body where "body = concat (map (\<lambda>(k, p). segment k p) segs)
                 @ [255, m, l1, l0, pr, h1, h0, w1, w0] @ rest"
  obtain t where t: "body = 255 # t"
    using segments_start [of segs "[m, l1, l0, pr, h1, h0, w1, w0] @ rest"]
    by (auto simp: body_def)
  have "JPG_scan (take 1 body) (drop 1 body) = JPG_scan [255] (tl body)"
    by (simp add: t)
  also have "\<dots> = Inr (Some (be16 [h1, h0], be16 [w1, w0]))"
    using JPG_scan_segments [OF assms] by (simp only: body_def)
  finally have "JPG_imgshape ([s0, s1] @ body) = Inr (int (be16 [w1, w0]), int (be16 [h1, h0]))"
    by (simp add: JPG_imgshape_def)
  then show ?thesis by (simp only: body_def)
qed

lemma PNG_imgshape_header:
  assumes "length pre = 16"
  shows "PNG_imgshape (pre @ [w3, w2, w1, w0, h3, h2, h1, h0] @ rest)
         = Inr (int (be32 [w3, w2, w1, w0]), int (be32 [h3, h2, h1, h0]))"
  using assms by (simp add: PNG_imgshape_def slice_def)

lemma GIF_imgshape_header:
  assumes "length pre = 6"
  shows "GIF_imgshape (pre @ [w0, w1, h0, h1] @ rest)
         = Inr (int (le16 [w0, w1]), int (le16 [h0, h1]))"
  using assms by (simp add: GIF_imgshape_def slice_def)

text \<open>
  C10. Image shape extraction returns the dimensions written in the header. For PNG data
  they are the two 4-byte big-endian integers at offsets 16 to 24, width first; for GIF
  data the two 2-byte little-endian integers at offset 6, width first; for JPEG data,
  made of segments with a length field, the 2-byte big-endian height and width that
  follow the length and precision bytes of the first segment whose marker is \<open>0xC0\<close> to
  \<open>0xC3\<close>. The result is the pair (width, height).
\<close>

theorem imgshape_reads_header:
  "(length pre = 16 \<longrightarrow>
      PNG_imgshape (pre @ [w3, w2, w1, w0, h3, h2, h1, h0] @ rest)
        = Inr (int (be32 [w3, w2, w1, w0]), int (be32 [h3, h2, h1, h0])))
   \<and> (length gpre = 6 \<longrightarrow>
      GIF_imgshape (gpre @ [a0, a1, b0, b1] @ grest)
        = Inr (int (le16 [a0, a1]), int (le16 [b0, b1])))
   \<and> (list_all skippable segs \<and> is_sof m \<longrightarrow>
      JPG_imgshape ([s0, s1] @ concat (map (\<lambda>(k, p). segment k p) segs)
                      @ [255, m, l1, l0, pr, y1, y0, x1, x0] @ jrest)
        = Inr (int (be16 [x1, x0]), int (be16 [y1, y0])))"
proof (intro conjI impI)
  assume "length pre = 16"
  then show "PNG_imgshape (pre @ [w3, w2, w1, w0, h3, h2, h1, h0] @ rest)
               = Inr (int (be32 [w3, w2, w1, w0]), int (be32 [h3, h2, h1, h0]))"
    by (rule PNG_imgshape_header)
next
  assume "length gpre = 6"
  then show "GIF_imgshape (gpre @ [a0, a1, b0, b1] @ grest)
               = Inr (int (le16 [a0, a1]), int (le16 [b0, b1]))"
    by (rule GIF_imgshape_header)
next
  assume "list_all skippable segs \<and> is_sof m"
  then show "JPG_imgshape ([s0, s1] @ concat (map (\<lambda>(k, p). segment k p) segs)
                             @ [255, m, l1, l0, pr, y1, y0, x1, x0] @ jrest)
               = Inr (int (be16 [x1, x0]), int (be16 [y1, y0]))"
    using JPG_imgshape_segments by blast
qed

text \<open>
  The fixtures: a PNG header with width 100 and height 50 after the signature and the
  start of the IHDR chunk, a GIF header with the same size after \<open>GIF89a\<close>, and a JPEG
  with an APP0 segment before a baseline frame of 100 by 50.
\<close>

theorem imgshape_reads_header_witness:
  "PNG_imgshape [137, 80, 78, 71, 13, 10, 26, 10, 0, 0, 0, 13, 73, 72, 68, 82,
                 0, 0, 0, 100, 0, 0, 0, 50, 8, 6, 0, 0, 0] = Inr (100, 50)
   \<and> GIF_imgshape [71, 73, 70, 56, 57, 97, 100, 0, 50, 0, 128, 0, 0] = Inr (100, 50)
   \<and> JPG_imgshape [255, 216, 255, 224, 0, 7, 74, 70, 73, 70, 0,
                   255, 192, 0, 17, 8, 0, 50, 0, 100, 3, 1, 34, 0] = Inr (100, 50)"
  using imgshape_reads_header
    [where pre = "[137, 80, 78, 71, 13, 10, 26, 10, 0, 0, 0, 13, 73, 72, 68, 82]"
       and ?w3.0 = 0 and ?w2.0 = 0 and ?w1.0 = 0 and ?w0.0 = 100
       and ?h3.0 = 0 and ?h2.0 = 0 and ?h1.0 = 0 and ?h0.0 = 50 and rest = "[8, 6, 0, 0, 0]"
       and gpre = "[71, 73, 70, 56, 57, 97]"
       and ?a0.0 = 100 and ?a1.0 = 0 and ?b0.0 = 50 and ?b1.0 = 0 and grest = "[128, 0, 0]"
       and segs = "[(224, [74, 70, 73, 70, 0])]" and m = 192
       and ?s0.0 = 255 and ?s1.0 = 216 and ?l1.0 = 0 and ?l0.0 = 17 and pr = 8
       and ?y1.0 = 0 and ?y0.0 = 50 and ?x1.0 = 0 and ?x0.0 = 100 and jrest = "[3, 1, 34, 0]"]
  by (simp add: be32_def le16_def be16_def segment_def is_sof_def)

end
